theory Spec2Isabelle
  imports Main
begin

section \<open>JavaScript values\<close>

text \<open>
  The handlers of \<^verbatim>\<open>src/commands.ts\<close> read settings whose values are whatever the
  user's settings file holds, so values are modelled with their run-time shape rather
  than with the TypeScript annotation. Numbers are the integers that JavaScript prints
  in plain decimal notation; strings are lists of characters.
\<close>

datatype jsval =
    JUndefined
  | JNull
  | JBool bool
  | JNum int
  | JStr string
  | JArr "jsval list"
  | JObj "(string \<times> jsval) list"

datatype error = TypeError | UriError | ResourceError | RequestError

text \<open>Truthiness, as tested by \<^verbatim>\<open>if (enable)\<close>.\<close>

fun truthy :: "jsval \<Rightarrow> bool" where
  "truthy JUndefined = False"
| "truthy JNull = False"
| "truthy (JBool b) = b"
| "truthy (JNum n) = (n \<noteq> 0)"
| "truthy (JStr s) = (s \<noteq> [])"
| "truthy (JArr xs) = True"
| "truthy (JObj kvs) = True"

fun join_with :: "string \<Rightarrow> string list \<Rightarrow> string" where
  "join_with sep [] = []"
| "join_with sep [x] = x"
| "join_with sep (x # y # ys) = x @ sep @ join_with sep (y # ys)"

fun digits :: "nat \<Rightarrow> string" where
  "digits n =
     (if n < 10 then [''0123456789'' ! n]
      else digits (n div 10) @ [''0123456789'' ! (n mod 10)])"

text \<open>
  The conversion \<^verbatim>\<open>String(v)\<close>, which a template literal applies too. An array
  prints its elements separated by commas, with \<^verbatim>\<open>null\<close> and
  \<^verbatim>\<open>undefined\<close> elements printed as nothing.
\<close>

fun js_String :: "jsval \<Rightarrow> string" where
  "js_String JUndefined = ''undefined''"
| "js_String JNull = ''null''"
| "js_String (JBool b) = (if b then ''true'' else ''false'')"
| "js_String (JNum n) = (if n < 0 then CHR ''-'' # digits (nat (- n)) else digits (nat n))"
| "js_String (JStr s) = s"
| "js_String (JArr xs) =
     join_with '',''
       (map (\<lambda>x. if x = JUndefined \<or> x = JNull then [] else js_String x) xs)"
| "js_String (JObj kvs) = ''[object Object]''"

text \<open>\<^verbatim>\<open>xs.join(sep)\<close> on an array.\<close>

definition js_join :: "string \<Rightarrow> jsval list \<Rightarrow> string" where
  "js_join sep xs =
     join_with sep
       (map (\<lambda>x. if x = JUndefined \<or> x = JNull then [] else js_String x) xs)"

text \<open>
  The spread \<^verbatim>\<open>[...v]\<close>: an array yields its elements, a string its characters,
  and a value that is not iterable raises a \<^verbatim>\<open>TypeError\<close>.
\<close>

fun js_spread :: "jsval \<Rightarrow> error + jsval list" where
  "js_spread (JArr xs) = Inr xs"
| "js_spread (JStr s) = Inr (map (\<lambda>c. JStr [c]) s)"
| "js_spread v = Inl TypeError"

text \<open>\<^verbatim>\<open>content.split("\n")\<close>: splitting at every occurrence of one character.\<close>

fun js_split :: "char \<Rightarrow> string \<Rightarrow> string list" where
  "js_split c [] = [[]]"
| "js_split c (x # xs) =
     (let r = js_split c xs in if x = c then [] # r else (x # hd r) # tl r)"

section \<open>The editor host\<close>

text \<open>
  Modelled from the spec: the configuration collaborator of the editor host
  (\<^verbatim>\<open>get(key, default?)\<close>, \<^verbatim>\<open>has(key)\<close>, \<^verbatim>\<open>update(key, value)\<close>), which is
  imported from \<^verbatim>\<open>coc.nvim\<close> and is not part of the repository. A namespace is a
  dictionary of settings; a key that is absent reads as \<^verbatim>\<open>undefined\<close>. The two
  readers do not test the same thing: \<^verbatim>\<open>has\<close> asks whether what is stored is
  not \<^verbatim>\<open>undefined\<close>, so it is true for a setting that holds \<^verbatim>\<open>null\<close>;
  \<^verbatim>\<open>get\<close> gives the default, or \<^verbatim>\<open>undefined\<close> when it is called without
  one, for a setting that is absent or holds \<^verbatim>\<open>null\<close>.
\<close>

type_synonym configuration = "string \<rightharpoonup> jsval"

definition lookUp :: "configuration \<Rightarrow> string \<Rightarrow> jsval" where
  "lookUp config key = (case config key of None \<Rightarrow> JUndefined | Some v \<Rightarrow> v)"

definition config_has :: "configuration \<Rightarrow> string \<Rightarrow> bool" where
  "config_has config key = (lookUp config key \<noteq> JUndefined)"

definition config_get_default :: "configuration \<Rightarrow> string \<Rightarrow> jsval \<Rightarrow> jsval" where
  "config_get_default config key dflt =
     (if lookUp config key = JUndefined \<or> lookUp config key = JNull then dflt
      else lookUp config key)"

definition config_get :: "configuration \<Rightarrow> string \<Rightarrow> jsval" where
  "config_get config key = config_get_default config key JUndefined"

datatype position = Position nat nat

datatype range = Range position position

datatype location = Location string range

text \<open>
  The three custom requests of \<^verbatim>\<open>./lsp_extensions\<close>, each with its payload:
  \<^verbatim>\<open>{referrer: {uri}, uris}\<close>, none, and \<^verbatim>\<open>{textDocument: {uri}}\<close>.
\<close>

datatype request =
    Cache string "string list"
  | ReloadImportRegistries
  | VirtualTextDocument string

text \<open>
  What a handler does to its collaborators, in the order of the calls; reading a
  setting or the current document is not recorded. The type \<open>'u\<close> is the parsed
  \<^verbatim>\<open>Uri\<close> of the host library. \<open>WithProgress\<close> carries the title, the
  cancellable flag and the calls made by the task inside the progress scope, which the
  host runs once; \<open>CreateTerminal\<close> carries the options \<^verbatim>\<open>{name, cwd, env}\<close> and
  the handle the factory resolved to, if it did.
\<close>

datatype 'u event =
    SendRequest request
  | WithProgress string bool "'u event list"
  | EchoLines "string list"
  | ShowPickerDialog "string list" string
  | ShowMessage string
  | ConfigUpdate string string jsval
  | NvimCommand string bool
  | ExecuteCommand string 'u position "location list"
  | TerminalDispose nat
  | CreateTerminal string string jsval "nat option"
  | TerminalSendText nat string

text \<open>
  The state: the module variable \<^verbatim>\<open>let terminal: Terminal | undefined\<close> and the
  parts of the editor the handlers read or write: the settings of every namespace,
  the ids of the installed extensions, the uri of the current document, the workspace
  root, the number of handles the terminal factory has returned, and the calls made so
  far.
\<close>

record 'u state =
  terminal :: "nat option"
  workspace_config :: "string \<Rightarrow> configuration"
  extensions_all :: "string list"
  current_document :: string
  workspace_root :: string
  terminals_created :: nat
  trace :: "'u event list"

definition emit :: "'u event \<Rightarrow> 'u state \<Rightarrow> 'u state" where
  "emit e s = s\<lparr>trace := trace s @ [e]\<rparr>"

definition config_update :: "string \<Rightarrow> string \<Rightarrow> jsval \<Rightarrow> 'u state \<Rightarrow> 'u state" where
  "config_update ns key v s =
     emit (ConfigUpdate ns key v)
       (s\<lparr>workspace_config :=
            (workspace_config s)(ns := (workspace_config s ns)(key \<mapsto> v))\<rparr>)"

text \<open>
  Modelled from the spec: the terminal factory of the workspace collaborator,
  \<^verbatim>\<open>createTerminal({name, cwd, env}) -> TerminalHandle\<close>, not part of the repository.
  It resolves to a handle that no earlier call returned, or it rejects (the spec's
  resource error); \<open>resolves\<close> says which.
\<close>

definition createTerminal ::
  "bool \<Rightarrow> string \<Rightarrow> string \<Rightarrow> jsval \<Rightarrow> 'u state \<Rightarrow> nat option \<times> 'u state" where
  "createTerminal resolves name cwd env s =
     (if resolves
      then (Some (terminals_created s),
            emit (CreateTerminal name cwd env (Some (terminals_created s)))
              (s\<lparr>terminals_created := Suc (terminals_created s)\<rparr>))
      else (None, emit (CreateTerminal name cwd env None) s))"

section \<open>The command handlers\<close>

text \<open>
  Three things the handlers use are outside the repository and are parameters of the
  model: \<open>ns\<close> is the constant \<^verbatim>\<open>EXTENSION_NS\<close> of \<^verbatim>\<open>./constants\<close>;
  \<open>parse\<close> is \<^verbatim>\<open>Uri.parse\<close>, which returns a parsed uri or throws; and
  \<open>fsPath\<close> reads the property \<^verbatim>\<open>fsPath\<close> of a parsed uri.
\<close>

text \<open>
  \<^verbatim>\<open>cache\<close>: the callback, run in state \<open>s\<close>; \<open>reply\<close> is how the request
  settles.
\<close>

definition cache :: "error + unit \<Rightarrow> 'u state \<Rightarrow> (error + unit) \<times> 'u state" where
  "cache reply s =
     (let document = current_document s
      in (reply,
          emit (WithProgress ''caching'' True [SendRequest (Cache document [])]) s))"

text \<open>\<^verbatim>\<open>checkTSServer\<close>.\<close>

definition checkTSServer :: "'u state \<Rightarrow> 'u state" where
  "checkTSServer s =
     (let tsserverConfig = workspace_config s ''tsserver'';
          enable = config_get tsserverConfig ''enable''
      in if truthy enable
         then emit (NvimCommand ''CocRestart'' True)
                (config_update ''tsserver'' ''enable'' (JBool False) s)
         else s)"

text \<open>
  \<^verbatim>\<open>initializeWorkspace\<close>: the callback; \<open>picked\<close> is what the picker dialog
  resolves to, \<open>None\<close> when the user dismisses it.
\<close>

definition initializeWorkspace :: "string \<Rightarrow> string list option \<Rightarrow> 'u state \<Rightarrow> 'u state" where
  "initializeWorkspace ns picked s =
     (let title = ''Initialize Deno Project'';
          linting = ''Enable Deno linting?'';
          unstable = ''Enable Deno unstable APIs?'';
          prettier = ''Disable coc-prettier for current project?'';
          items = [linting, unstable] @
                  (if ''coc-prettier'' \<in> set (extensions_all s) then [prettier] else []);
          s1 = emit (ShowPickerDialog items title) s
      in case picked of
           None \<Rightarrow> s1
         | Some settings \<Rightarrow>
             (let s2 = config_update ns ''enable'' (JBool True) s1;
                  s3 = config_update ns ''lint'' (JBool (linting \<in> set settings)) s2;
                  s4 = config_update ns ''unstable'' (JBool (unstable \<in> set settings)) s3;
                  s5 = (if prettier \<in> set settings
                        then config_update ''prettier'' ''disableLanguages''
                               (JArr [JStr ''typescript'', JStr ''javascript'']) s4
                        else s4);
                  s6 = emit (ShowMessage ''Deno is now setup in this workspace.'') s5
              in checkTSServer s6))"

text \<open>\<^verbatim>\<open>showReferences\<close>.\<close>

definition showReferences ::
  "(string \<Rightarrow> error + 'u) \<Rightarrow> string \<Rightarrow> position \<Rightarrow> location list \<Rightarrow> 'u state
     \<Rightarrow> (error + unit) \<times> 'u state" where
  "showReferences parse uri position locations s =
     (if uri = [] then (Inr (), s)
      else case parse uri of
             Inl e \<Rightarrow> (Inl e, s)
           | Inr u \<Rightarrow>
               (Inr (),
                emit (ExecuteCommand ''editor.action.showReferences'' u position locations) s))"

text \<open>
  \<^verbatim>\<open>status\<close>: the callback; \<open>reply\<close> is the response to the request, or the
  failure of the connection.
\<close>

definition status :: "error + string \<Rightarrow> 'u state \<Rightarrow> (error + unit) \<times> 'u state" where
  "status reply s =
     (let s1 = emit (SendRequest (VirtualTextDocument ''deno:/status.md'')) s
      in case reply of
           Inl e \<Rightarrow> (Inl e, s1)
         | Inr content \<Rightarrow> (Inr (), emit (EchoLines (js_split (CHR 0x0A) content)) s1))"

text \<open>
  \<^verbatim>\<open>test\<close>, lines 113 to 131: the constants \<^verbatim>\<open>testArgs\<close>, \<^verbatim>\<open>env\<close>,
  \<^verbatim>\<open>bin\<close> and \<^verbatim>\<open>args\<close>, each a function of what it is computed from.
  \<open>CHR 0x22\<close> is the double quote.
\<close>

definition testArgs :: "configuration \<Rightarrow> error + jsval list" where
  "testArgs config =
     (case js_spread (config_get_default config ''codeLens.testArgs'' (JArr [])) of
        Inl e \<Rightarrow> Inl e
      | Inr xs \<Rightarrow>
          (let ys = (if config_has config ''unstable'' then xs @ [JStr ''--unstable''] else xs);
               zs = (if config_has config ''importMap''
                     then ys @ [JStr ''--import-map'',
                                JStr (js_String (config_get config ''importMap''))]
                     else ys)
           in Inr zs))"

definition env :: "configuration \<Rightarrow> jsval" where
  "env config =
     (if config_has config ''cache''
      then JObj [(''DENO_DIR'', config_get config ''cache'')]
      else JUndefined)"

definition bin :: "configuration \<Rightarrow> jsval" where
  "bin config = config_get_default config ''path'' (JStr ''deno'')"

definition args ::
  "(string \<Rightarrow> error + 'u) \<Rightarrow> ('u \<Rightarrow> string) \<Rightarrow> configuration \<Rightarrow> string \<Rightarrow> string
     \<Rightarrow> error + jsval list" where
  "args parse fsPath config uri name =
     (case testArgs config of
        Inl e \<Rightarrow> Inl e
      | Inr ta \<Rightarrow>
          (case parse uri of
             Inl e \<Rightarrow> Inl e
           | Inr u \<Rightarrow>
               Inr ([JStr ''test''] @ ta @
                    [JStr ''--filter'', JStr ([CHR 0x22] @ name @ [CHR 0x22]), JStr (fsPath u)])))"

text \<open>
  \<^verbatim>\<open>test\<close>, the whole function. \<open>resolves\<close> says whether the terminal factory
  resolves in this call.
\<close>

definition test ::
  "string \<Rightarrow> (string \<Rightarrow> error + 'u) \<Rightarrow> ('u \<Rightarrow> string) \<Rightarrow> bool \<Rightarrow> string \<Rightarrow> string
     \<Rightarrow> 'u state \<Rightarrow> (error + unit) \<times> 'u state" where
  "test ns parse fsPath resolves uri name s =
     (let config = workspace_config s ns
      in case args parse fsPath config uri name of
           Inl e \<Rightarrow> (Inl e, s)
         | Inr as \<Rightarrow>
             (let s1 = (case terminal s of
                          Some t \<Rightarrow> (emit (TerminalDispose t) s)\<lparr>terminal := None\<rparr>
                        | None \<Rightarrow> s)
              in case createTerminal resolves name (workspace_root s1) (env config) s1 of
                   (None, s2) \<Rightarrow> (Inl ResourceError, s2)
                 | (Some t, s2) \<Rightarrow>
                     (Inr (),
                      emit (TerminalSendText t (js_String (bin config) @ '' '' @ js_join '' '' as))
                        (s2\<lparr>terminal := Some t\<rparr>))))"






text \<open>
  The state when the module has just been loaded, in an editor with the settings
  \<open>cfg\<close>: no terminal is stored and nothing has been called yet.
\<close>

definition loaded :: "(string \<Rightarrow> configuration) \<Rightarrow> 'u state" where
  "loaded cfg =
     \<lparr>terminal = None, workspace_config = cfg, extensions_all = [],
      current_document = ''file:///x.ts'', workspace_root = ''/w'', terminals_created = 0,
      trace = []\<rparr>"

section \<open>Splitting and joining\<close>

lemma js_split_not_Nil: "js_split c xs \<noteq> []"
  by (induction xs) (simp_all add: Let_def)

lemma join_with_Cons_Cons: "join_with sep ((x # l) # ls) = x # join_with sep (l # ls)"
  by (cases ls) simp_all

lemma join_js_split: "join_with [c] (js_split c xs) = xs"
proof (induction xs)
  case Nil
  show ?case by simp
next
  case (Cons x xs)
  obtain l ls where r: "js_split c xs = l # ls"
    using js_split_not_Nil [of c xs] by (cases "js_split c xs") auto
  show ?case
  proof (cases "x = c")
    case True
    then show ?thesis using Cons r by (simp add: Let_def)
  next
    case False
    then show ?thesis using Cons r by (simp add: Let_def join_with_Cons_Cons)
  qed
qed

lemma js_split_lines: "l \<in> set (js_split c xs) \<Longrightarrow> c \<notin> set l"
proof (induction xs arbitrary: l)
  case Nil
  then show ?case by simp
next
  case (Cons x xs)
  obtain h t where r: "js_split c xs = h # t"
    using js_split_not_Nil [of c xs] by (cases "js_split c xs") auto
  have h: "c \<notin> set h" and t: "\<And>k. k \<in> set t \<Longrightarrow> c \<notin> set k"
    using Cons.IH r by auto
  show ?case
  proof (cases "x = c")
    case True
    then show ?thesis using Cons.prems r h t by (auto simp: Let_def)
  next
    case False
    then show ?thesis using Cons.prems r h t by (auto simp: Let_def)
  qed
qed

section \<open>The cache command\<close>

text \<open>
  Claim C6. An invocation of the cache callback adds exactly one call to the trace: a
  progress scope titled "caching", cancellable, holding one Cache request whose
  referrer is the uri of the document current at that moment and whose list of uris is
  empty. The document is read at each invocation: when the current document changes
  between two invocations of the same callback, the second request names the new
  document.
\<close>

theorem cache_sends_one_request_in_progress_scope:
  "cache reply s =
     (reply, s\<lparr>trace := trace s @
        [WithProgress ''caching'' True [SendRequest (Cache (current_document s) [])]]\<rparr>)
   \<and> trace (snd (cache reply' ((snd (cache reply s))\<lparr>current_document := d\<rparr>))) =
       trace s @
        [WithProgress ''caching'' True [SendRequest (Cache (current_document s) [])],
         WithProgress ''caching'' True [SendRequest (Cache d [])]]"
  by (simp add: cache_def emit_def)

theorem cache_sends_one_request_in_progress_scope_witness:
  "trace (snd (cache (Inr ()) (loaded (\<lambda>ns. Map.empty) :: unit state)))
   = [WithProgress ''caching'' True [SendRequest (Cache ''file:///x.ts'' [])]]"
  using cache_sends_one_request_in_progress_scope
    [of "Inr ()" "loaded (\<lambda>ns. Map.empty) :: unit state"]
  by (simp add: loaded_def)

section \<open>The status command\<close>

text \<open>
  Claim C7. An invocation of the status callback sends exactly one request, a
  VirtualTextDocument request for "deno:/status.md", and when the request is answered
  it hands the answer, split at the newline character, to the line echo; when the
  request fails, the failure is returned and nothing is echoed. The split loses
  nothing: joining the lines with newlines gives the answer back, and no line holds a
  newline. The answer "line1\nline2\nline3" is delivered as the three lines "line1",
  "line2", "line3".
\<close>

theorem status_sends_request_and_echoes_lines:
  "status (Inr content) s =
     (Inr (), s\<lparr>trace := trace s @
        [SendRequest (VirtualTextDocument ''deno:/status.md''),
         EchoLines (js_split (CHR 0x0A) content)]\<rparr>)
   \<and> status (Inl e) s =
     (Inl e, s\<lparr>trace := trace s @ [SendRequest (VirtualTextDocument ''deno:/status.md'')]\<rparr>)
   \<and> join_with [CHR 0x0A] (js_split (CHR 0x0A) content) = content
   \<and> (\<forall>l \<in> set (js_split (CHR 0x0A) content). CHR 0x0A \<notin> set l)
   \<and> js_split (CHR 0x0A) (''line1'' @ [CHR 0x0A] @ ''line2'' @ [CHR 0x0A] @ ''line3'')
       = [''line1'', ''line2'', ''line3'']"
  by (simp add: status_def emit_def join_js_split js_split_lines)

theorem status_sends_request_and_echoes_lines_witness:
  "trace (snd (status (Inr (''ok'' @ [CHR 0x0A] @ ''v1''))
      (loaded (\<lambda>ns. Map.empty) :: unit state)))
   = [SendRequest (VirtualTextDocument ''deno:/status.md''), EchoLines [''ok'', ''v1'']]
   \<and> list_all (\<lambda>l. CHR 0x0A \<notin> set l) (js_split (CHR 0x0A) (''ok'' @ [CHR 0x0A] @ ''v1''))"
  using status_sends_request_and_echoes_lines
    [of "''ok'' @ [CHR 0x0A] @ ''v1''" "loaded (\<lambda>ns. Map.empty) :: unit state" RequestError]
  by (simp add: list_all_iff loaded_def)

section \<open>The TSServer conflict check\<close>

lemma checkTSServer_settles: "checkTSServer (checkTSServer s) = checkTSServer s"
  by (auto simp: checkTSServer_def config_get_def config_get_default_def lookUp_def config_update_def emit_def Let_def
      split: option.splits)

lemma checkTSServer_disables:
  "\<not> truthy (config_get (workspace_config (checkTSServer s) ''tsserver'') ''enable'')"
  by (auto simp: checkTSServer_def config_get_def config_get_default_def lookUp_def config_update_def emit_def Let_def
      split: option.splits)

text \<open>
  Claim C9. When the setting "enable" of the namespace "tsserver" is absent or false,
  the check leaves the state as it is: nothing is written and no restart is issued.
  When it is true, the check writes false to it and issues one "CocRestart" command.
  In every state, running the check twice gives the state that running it once gives.
\<close>

theorem checkTSServer_idempotent:
  "(workspace_config s ''tsserver'' ''enable'' = None
      \<or> workspace_config s ''tsserver'' ''enable'' = Some (JBool False)
     \<longrightarrow> checkTSServer s = s)
   \<and> (workspace_config s ''tsserver'' ''enable'' = Some (JBool True)
     \<longrightarrow> checkTSServer s =
          s\<lparr>workspace_config :=
               (workspace_config s)
                 (''tsserver'' := (workspace_config s ''tsserver'')(''enable'' \<mapsto> JBool False)),
             trace := trace s @
               [ConfigUpdate ''tsserver'' ''enable'' (JBool False),
                NvimCommand ''CocRestart'' True]\<rparr>)
   \<and> checkTSServer (checkTSServer s) = checkTSServer s"
  by (auto simp: checkTSServer_def config_get_def config_get_default_def lookUp_def config_update_def emit_def Let_def
      split: option.splits)

theorem checkTSServer_idempotent_witness:
  "workspace_config
     (loaded ((\<lambda>ns. Map.empty)(''tsserver'' := [''enable'' \<mapsto> JBool True])) :: unit state)
     ''tsserver'' ''enable'' = Some (JBool True)
   \<and> trace (checkTSServer
       (loaded ((\<lambda>ns. Map.empty)(''tsserver'' := [''enable'' \<mapsto> JBool True])) :: unit state))
     = [ConfigUpdate ''tsserver'' ''enable'' (JBool False), NvimCommand ''CocRestart'' True]
   \<and> workspace_config (checkTSServer
       (loaded ((\<lambda>ns. Map.empty)(''tsserver'' := [''enable'' \<mapsto> JBool True])) :: unit state))
     ''tsserver'' ''enable'' = Some (JBool False)"
  using checkTSServer_idempotent
    [of "loaded ((\<lambda>ns. Map.empty)(''tsserver'' := [''enable'' \<mapsto> JBool True])) :: unit state"]
  by (simp add: loaded_def)

section \<open>The Initialize-Workspace command\<close>

text \<open>
  Claim C8, as stated, fails when the picker is dismissed: the callback returns right
  after the dialog, and the conflict check is not run. Here the TypeScript server is
  enabled and stays enabled, the dialog is the only call made, and running the check
  on the resulting state still changes it.
\<close>

theorem initializeWorkspace_dismissed_counterexample:
  "checkTSServer (initializeWorkspace ''deno'' None
       (loaded ((\<lambda>ns. Map.empty)(''tsserver'' := [''enable'' \<mapsto> JBool True])) :: unit state))
   \<noteq> initializeWorkspace ''deno'' None
       (loaded ((\<lambda>ns. Map.empty)(''tsserver'' := [''enable'' \<mapsto> JBool True])) :: unit state)
   \<and> trace (initializeWorkspace ''deno'' None
       (loaded ((\<lambda>ns. Map.empty)(''tsserver'' := [''enable'' \<mapsto> JBool True])) :: unit state))
     = [ShowPickerDialog [''Enable Deno linting?'', ''Enable Deno unstable APIs?'']
          ''Initialize Deno Project'']
   \<and> truthy (config_get (workspace_config (initializeWorkspace ''deno'' None
       (loaded ((\<lambda>ns. Map.empty)(''tsserver'' := [''enable'' \<mapsto> JBool True])) :: unit state))
       ''tsserver'') ''enable'')"
  by (simp add: initializeWorkspace_def checkTSServer_def config_get_def config_get_default_def lookUp_def
      config_update_def emit_def loaded_def Let_def)

text \<open>
  Claim C8, amended. When the picker returns a selection, whatever it holds and also
  when it is empty, the callback shows the dialog, writes "enable", "lint" and
  "unstable", writes the formatter setting if that option was chosen, shows the
  message, and then runs the conflict check on the state reached: its result is
  exactly the result of the check on that state. So when the TypeScript server is not
  enabled in that state the callback ends there, with no further write and no restart,
  and when it is enabled the callback ends with the write of false and one restart.
  When the picker is dismissed, the callback shows the dialog and does nothing else:
  no setting is written and the check is not run.
\<close>

theorem initializeWorkspace_checks_after_selection:
  "(let s' =
      emit (ShowMessage ''Deno is now setup in this workspace.'')
        ((if ''Disable coc-prettier for current project?'' \<in> set settings
          then config_update ''prettier'' ''disableLanguages''
                 (JArr [JStr ''typescript'', JStr ''javascript''])
          else (\<lambda>x. x))
           (config_update ns ''unstable''
              (JBool (''Enable Deno unstable APIs?'' \<in> set settings))
              (config_update ns ''lint'' (JBool (''Enable Deno linting?'' \<in> set settings))
                 (config_update ns ''enable'' (JBool True)
                    (emit (ShowPickerDialog
                             ([''Enable Deno linting?'', ''Enable Deno unstable APIs?''] @
                              (if ''coc-prettier'' \<in> set (extensions_all s)
                               then [''Disable coc-prettier for current project?''] else []))
                             ''Initialize Deno Project'') s)))))
    in initializeWorkspace ns (Some settings) s = checkTSServer s'
       \<and> trace s' = trace s @
             [ShowPickerDialog
                ([''Enable Deno linting?'', ''Enable Deno unstable APIs?''] @
                 (if ''coc-prettier'' \<in> set (extensions_all s)
                  then [''Disable coc-prettier for current project?''] else []))
                ''Initialize Deno Project'',
              ConfigUpdate ns ''enable'' (JBool True),
              ConfigUpdate ns ''lint'' (JBool (''Enable Deno linting?'' \<in> set settings)),
              ConfigUpdate ns ''unstable''
                (JBool (''Enable Deno unstable APIs?'' \<in> set settings))] @
             (if ''Disable coc-prettier for current project?'' \<in> set settings
              then [ConfigUpdate ''prettier'' ''disableLanguages''
                      (JArr [JStr ''typescript'', JStr ''javascript''])]
              else []) @
             [ShowMessage ''Deno is now setup in this workspace.'']
       \<and> (\<not> truthy (config_get (workspace_config s' ''tsserver'') ''enable'')
            \<longrightarrow> initializeWorkspace ns (Some settings) s = s')
       \<and> (truthy (config_get (workspace_config s' ''tsserver'') ''enable'')
            \<longrightarrow> trace (initializeWorkspace ns (Some settings) s) =
                  trace s' @ [ConfigUpdate ''tsserver'' ''enable'' (JBool False),
                              NvimCommand ''CocRestart'' True]
                \<and> workspace_config (initializeWorkspace ns (Some settings) s) =
                  (workspace_config s')
                    (''tsserver'' := (workspace_config s' ''tsserver'')(''enable'' \<mapsto> JBool False))))
   \<and> checkTSServer (initializeWorkspace ns (Some settings) s)
       = initializeWorkspace ns (Some settings) s
   \<and> \<not> truthy (config_get
          (workspace_config (initializeWorkspace ns (Some settings) s) ''tsserver'') ''enable'')
   \<and> initializeWorkspace ns None s =
       s\<lparr>trace := trace s @
         [ShowPickerDialog
            ([''Enable Deno linting?'', ''Enable Deno unstable APIs?''] @
             (if ''coc-prettier'' \<in> set (extensions_all s)
              then [''Disable coc-prettier for current project?''] else []))
            ''Initialize Deno Project'']\<rparr>"
proof -
  define s' where "s' =
      emit (ShowMessage ''Deno is now setup in this workspace.'')
        ((if ''Disable coc-prettier for current project?'' \<in> set settings
          then config_update ''prettier'' ''disableLanguages''
                 (JArr [JStr ''typescript'', JStr ''javascript''])
          else (\<lambda>x. x))
           (config_update ns ''unstable''
              (JBool (''Enable Deno unstable APIs?'' \<in> set settings))
              (config_update ns ''lint'' (JBool (''Enable Deno linting?'' \<in> set settings))
                 (config_update ns ''enable'' (JBool True)
                    (emit (ShowPickerDialog
                             ([''Enable Deno linting?'', ''Enable Deno unstable APIs?''] @
                              (if ''coc-prettier'' \<in> set (extensions_all s)
                               then [''Disable coc-prettier for current project?''] else []))
                             ''Initialize Deno Project'') s)))))"
  have eq: "initializeWorkspace ns (Some settings) s = checkTSServer s'"
    unfolding s'_def by (simp add: initializeWorkspace_def Let_def)
  have tr: "trace s' = trace s @
             [ShowPickerDialog
                ([''Enable Deno linting?'', ''Enable Deno unstable APIs?''] @
                 (if ''coc-prettier'' \<in> set (extensions_all s)
                  then [''Disable coc-prettier for current project?''] else []))
                ''Initialize Deno Project'',
              ConfigUpdate ns ''enable'' (JBool True),
              ConfigUpdate ns ''lint'' (JBool (''Enable Deno linting?'' \<in> set settings)),
              ConfigUpdate ns ''unstable''
                (JBool (''Enable Deno unstable APIs?'' \<in> set settings))] @
             (if ''Disable coc-prettier for current project?'' \<in> set settings
              then [ConfigUpdate ''prettier'' ''disableLanguages''
                      (JArr [JStr ''typescript'', JStr ''javascript''])]
              else []) @
             [ShowMessage ''Deno is now setup in this workspace.'']"
    unfolding s'_def by (simp add: emit_def config_update_def)
  have off: "\<not> truthy (config_get (workspace_config s' ''tsserver'') ''enable'')
            \<longrightarrow> initializeWorkspace ns (Some settings) s = s'"
    unfolding eq by (simp add: checkTSServer_def Let_def)
  have on: "truthy (config_get (workspace_config s' ''tsserver'') ''enable'')
            \<longrightarrow> trace (initializeWorkspace ns (Some settings) s) =
                  trace s' @ [ConfigUpdate ''tsserver'' ''enable'' (JBool False),
                              NvimCommand ''CocRestart'' True]
                \<and> workspace_config (initializeWorkspace ns (Some settings) s) =
                  (workspace_config s')
                    (''tsserver'' := (workspace_config s' ''tsserver'')(''enable'' \<mapsto> JBool False))"
    unfolding eq by (simp add: checkTSServer_def config_update_def emit_def Let_def)
  have b: "checkTSServer (initializeWorkspace ns (Some settings) s)
       = initializeWorkspace ns (Some settings) s"
    unfolding eq by (rule checkTSServer_settles)
  have c: "\<not> truthy (config_get
          (workspace_config (initializeWorkspace ns (Some settings) s) ''tsserver'') ''enable'')"
    unfolding eq by (rule checkTSServer_disables)
  have d: "initializeWorkspace ns None s =
       s\<lparr>trace := trace s @
         [ShowPickerDialog
            ([''Enable Deno linting?'', ''Enable Deno unstable APIs?''] @
             (if ''coc-prettier'' \<in> set (extensions_all s)
              then [''Disable coc-prettier for current project?''] else []))
            ''Initialize Deno Project'']\<rparr>"
    by (simp add: initializeWorkspace_def emit_def Let_def)
  from eq tr off on b c d show ?thesis
    unfolding Let_def s'_def [symmetric] by blast
qed

theorem initializeWorkspace_checks_after_selection_witness:
  "trace (initializeWorkspace ''deno'' (Some [])
       (loaded ((\<lambda>ns. Map.empty)(''tsserver'' := [''enable'' \<mapsto> JBool True])) :: unit state))
     = [ShowPickerDialog [''Enable Deno linting?'', ''Enable Deno unstable APIs?'']
          ''Initialize Deno Project'',
        ConfigUpdate ''deno'' ''enable'' (JBool True),
        ConfigUpdate ''deno'' ''lint'' (JBool False),
        ConfigUpdate ''deno'' ''unstable'' (JBool False),
        ShowMessage ''Deno is now setup in this workspace.'',
        ConfigUpdate ''tsserver'' ''enable'' (JBool False),
        NvimCommand ''CocRestart'' True]
   \<and> \<not> truthy (config_get (workspace_config (initializeWorkspace ''deno'' (Some [])
       (loaded ((\<lambda>ns. Map.empty)(''tsserver'' := [''enable'' \<mapsto> JBool True])) :: unit state))
       ''tsserver'') ''enable'')
   \<and> trace (initializeWorkspace ''deno'' (Some [''Enable Deno linting?''])
       (loaded (\<lambda>ns. Map.empty) :: unit state))
     = [ShowPickerDialog [''Enable Deno linting?'', ''Enable Deno unstable APIs?'']
          ''Initialize Deno Project'',
        ConfigUpdate ''deno'' ''enable'' (JBool True),
        ConfigUpdate ''deno'' ''lint'' (JBool True),
        ConfigUpdate ''deno'' ''unstable'' (JBool False),
        ShowMessage ''Deno is now setup in this workspace.'']"
  using initializeWorkspace_checks_after_selection
    [of "[]" "''deno''"
      "loaded ((\<lambda>ns. Map.empty)(''tsserver'' := [''enable'' \<mapsto> JBool True])) :: unit state"]
    initializeWorkspace_checks_after_selection
    [of "[''Enable Deno linting?'']" "''deno''" "loaded (\<lambda>ns. Map.empty) :: unit state"]
  by (simp add: initializeWorkspace_def checkTSServer_def config_get_def config_get_default_def
      lookUp_def config_update_def emit_def loaded_def Let_def)

section \<open>Showing references\<close>

text \<open>
  Claim C10, as stated, fails for a uri that is not empty and that the parser rejects:
  the uri is parsed before the command is executed, so the parser's error is returned
  and no command is executed. Here the parser rejects "a b:c", a uri whose scheme
  holds a space, and accepts every other uri.
\<close>

theorem showReferences_rejected_uri_counterexample:
  "''a b:c'' \<noteq> []
   \<and> showReferences (\<lambda>v. if v = ''a b:c'' then Inl UriError else Inr v) ''a b:c''
       (Position 1 2) [Location ''file:///b.ts'' (Range (Position 3 0) (Position 3 5))]
       (loaded (\<lambda>ns. Map.empty))
     = (Inl UriError, loaded (\<lambda>ns. Map.empty))
   \<and> trace (snd (showReferences (\<lambda>v. if v = ''a b:c'' then Inl UriError else Inr v) ''a b:c''
       (Position 1 2) [Location ''file:///b.ts'' (Range (Position 3 0) (Position 3 5))]
       (loaded (\<lambda>ns. Map.empty)))) = []"
  by (simp add: showReferences_def loaded_def)

text \<open>
  Claim C10, amended. For every position and list of locations: with the empty uri,
  showReferences returns without executing a command and leaves the state as it is;
  with a uri that is not empty and that the parser accepts, it executes exactly one
  command, "editor.action.showReferences", with the parsed uri, the position and the
  locations, and changes nothing else; with a uri that is not empty and that the
  parser rejects, it returns the parser's error, executes no command and leaves the
  state as it is.
\<close>

theorem showReferences_executes_one_command:
  "showReferences parse [] position locations s = (Inr (), s)
   \<and> (uri \<noteq> [] \<and> parse uri = Inr u
     \<longrightarrow> showReferences parse uri position locations s =
          (Inr (), s\<lparr>trace := trace s @
             [ExecuteCommand ''editor.action.showReferences'' u position locations]\<rparr>))
   \<and> (uri \<noteq> [] \<and> parse uri = Inl e
     \<longrightarrow> showReferences parse uri position locations s = (Inl e, s))"
  by (simp add: showReferences_def emit_def)

theorem showReferences_executes_one_command_witness:
  "''file:///a.ts'' \<noteq> [] \<and> (Inr ''file:///a.ts'' :: error + string) = Inr ''file:///a.ts'' \<and>
   trace (snd (showReferences (\<lambda>v. Inr v) ''file:///a.ts'' (Position 1 2)
       [Location ''file:///b.ts'' (Range (Position 3 0) (Position 3 5))]
       (loaded (\<lambda>ns. Map.empty))))
   = [ExecuteCommand ''editor.action.showReferences'' ''file:///a.ts'' (Position 1 2)
       [Location ''file:///b.ts'' (Range (Position 3 0) (Position 3 5))]]"
  using showReferences_executes_one_command
    [of "\<lambda>v. Inr v" "Position 1 2"
      "[Location ''file:///b.ts'' (Range (Position 3 0) (Position 3 5))]"
      "loaded (\<lambda>ns. Map.empty)" "''file:///a.ts''" "''file:///a.ts''"]
  by (simp add: loaded_def)

section \<open>The test command\<close>

lemma test_fails:
  "args parse fsPath (workspace_config s ns) uri name = Inl e
     \<Longrightarrow> test ns parse fsPath resolves uri name s = (Inl e, s)"
  by (simp add: test_def)

lemma test_trace:
  "args parse fsPath (workspace_config s ns) uri name = Inr as \<Longrightarrow>
   trace (snd (test ns parse fsPath resolves uri name s)) =
     trace s @
     (case terminal s of Some t \<Rightarrow> [TerminalDispose t] | None \<Rightarrow> []) @
     [CreateTerminal name (workspace_root s) (env (workspace_config s ns))
        (if resolves then Some (terminals_created s) else None)] @
     (if resolves
      then [TerminalSendText (terminals_created s)
              (js_String (bin (workspace_config s ns)) @ '' '' @ js_join '' '' as)]
      else [])"
  by (simp add: test_def createTerminal_def emit_def Let_def split: option.splits)



lemma testArgs_cases:
  "testArgs config =
     (case js_spread (config_get_default config ''codeLens.testArgs'' (JArr [])) of
        Inl e \<Rightarrow> Inl e
      | Inr xs \<Rightarrow>
          Inr (xs @ (if config_has config ''unstable'' then [JStr ''--unstable''] else []) @
               (if config_has config ''importMap''
                then [JStr ''--import-map'', JStr (js_String (config_get config ''importMap''))]
                else [])))"
  by (simp add: testArgs_def Let_def split: sum.splits)

subsection \<open>The test arguments\<close>

text \<open>
  Claim C4 fails on the code where the setting "unstable" is present and false: the
  code asks whether the setting is present, not what it holds. With the settings
  \<^verbatim>\<open>{unstable: false}\<close> the test arguments are "--unstable". These are the
  settings Initialize-Workspace writes when "Enable Deno unstable APIs?" is left
  unticked: after it, a test of "my test" in "/a/b.ts" is run with "--unstable".
\<close>

theorem testArgs_unstable_false:
  "testArgs [''unstable'' \<mapsto> JBool False] = Inr [JStr ''--unstable'']
   \<and> workspace_config
        (initializeWorkspace ''deno'' (Some []) (loaded (\<lambda>ns. Map.empty) :: string state))
        ''deno'' ''unstable'' = Some (JBool False)
   \<and> last (trace (snd (test ''deno'' (\<lambda>v. Inr (drop 7 v)) (\<lambda>p. p) True
        ''file:///a/b.ts'' ''my test''
        (initializeWorkspace ''deno'' (Some []) (loaded (\<lambda>ns. Map.empty))))))
      = TerminalSendText 0
          (''deno test --unstable --filter '' @ [CHR 0x22] @ ''my test'' @ [CHR 0x22] @
           '' /a/b.ts'')"
  by (simp add: testArgs_def config_get_default_def config_has_def config_get_def lookUp_def
      initializeWorkspace_def checkTSServer_def config_update_def emit_def loaded_def
      test_def args_def env_def bin_def createTerminal_def js_join_def Let_def)

subsection \<open>The environment overlay\<close>

lemma env_cases:
  "(config ''cache'' = Some v \<and> v \<noteq> JUndefined \<and> v \<noteq> JNull
      \<longrightarrow> env config = JObj [(''DENO_DIR'', v)])
   \<and> (config ''cache'' = None \<longrightarrow> env config = JUndefined)
   \<and> (config ''cache'' = Some JNull \<longrightarrow> env config = JObj [(''DENO_DIR'', JUndefined)])"
  by (simp add: env_def config_has_def config_get_def config_get_default_def lookUp_def)

text \<open>
  Claim C5 fails on the code where the setting "cache" holds \<^verbatim>\<open>null\<close>: the
  code guards the overlay with \<^verbatim>\<open>has("cache")\<close>, which is true for
  \<^verbatim>\<open>null\<close>, and fills it with \<^verbatim>\<open>get("cache")\<close>, which is
  \<^verbatim>\<open>undefined\<close> for \<^verbatim>\<open>null\<close>. With the settings \<^verbatim>\<open>{cache: null}\<close> the
  overlay is the object whose DENO_DIR entry is \<^verbatim>\<open>undefined\<close>, and that object is
  what the terminal factory is called with. With a string in "cache" the overlay holds
  that string, and with no "cache" setting there is no overlay.
\<close>

theorem env_cache_null:
  "env [''cache'' \<mapsto> JNull] = JObj [(''DENO_DIR'', JUndefined)]
   \<and> trace (snd (test ''deno'' (\<lambda>v. Inr (drop 7 v)) (\<lambda>p. p) True ''file:///a/b.ts'' ''my test''
        (loaded ((\<lambda>ns. Map.empty)(''deno'' := [''cache'' \<mapsto> JNull])) :: string state)))
      = [CreateTerminal ''my test'' ''/w'' (JObj [(''DENO_DIR'', JUndefined)]) (Some 0),
         TerminalSendText 0
           (''deno test --filter '' @ [CHR 0x22] @ ''my test'' @ [CHR 0x22] @ '' /a/b.ts'')]
   \<and> env [''cache'' \<mapsto> JStr ''/tmp/deno''] = JObj [(''DENO_DIR'', JStr ''/tmp/deno'')]
   \<and> env Map.empty = JUndefined"
  by (simp add: testArgs_def config_get_default_def config_has_def config_get_def lookUp_def
      emit_def loaded_def test_def args_def env_def bin_def createTerminal_def js_join_def Let_def)

subsection \<open>The argument list and the command line\<close>

text \<open>
  Claim C3. With the test arguments ["--coverage"], "unstable" set to true and no
  import map, for the test named "my test" in "file:///a/b.ts", whose filesystem path
  is "/a/b.ts", the argument list is "test", "--coverage", "--unstable", "--filter",
  the name between two double-quote characters, "/a/b.ts"; and the text sent to the
  new terminal is the executable followed by these arguments, separated by single
  spaces. The executable is the setting "path", or "deno" when it is not set.
\<close>

theorem args_example:
  assumes "config ''codeLens.testArgs'' = Some (JArr [JStr ''--coverage''])"
    and "config ''unstable'' = Some (JBool True)"
    and "config ''importMap'' = None"
    and "parse ''file:///a/b.ts'' = Inr u"
    and "fsPath u = ''/a/b.ts''"
    and "workspace_config s ns = config"
  shows "args parse fsPath config ''file:///a/b.ts'' ''my test'' =
           Inr [JStr ''test'', JStr ''--coverage'', JStr ''--unstable'', JStr ''--filter'',
                JStr ([CHR 0x22] @ ''my test'' @ [CHR 0x22]), JStr ''/a/b.ts'']
         \<and> last (trace (snd (test ns parse fsPath True ''file:///a/b.ts'' ''my test'' s))) =
             TerminalSendText (terminals_created s)
               (js_String (bin config) @
                '' test --coverage --unstable --filter '' @ [CHR 0x22] @ ''my test'' @ [CHR 0x22] @
                '' /a/b.ts'')
         \<and> (config ''path'' = None \<longrightarrow> js_String (bin config) = ''deno'')
         \<and> (config ''path'' = Some (JStr p) \<longrightarrow> js_String (bin config) = p)"
proof -
  have a: "args parse fsPath config ''file:///a/b.ts'' ''my test'' =
           Inr [JStr ''test'', JStr ''--coverage'', JStr ''--unstable'', JStr ''--filter'',
                JStr ([CHR 0x22] @ ''my test'' @ [CHR 0x22]), JStr ''/a/b.ts'']"
    using assms
    by (simp add: args_def testArgs_def config_get_default_def config_has_def lookUp_def)
  have b: "last (trace (snd (test ns parse fsPath True ''file:///a/b.ts'' ''my test'' s))) =
             TerminalSendText (terminals_created s)
               (js_String (bin config) @
                '' test --coverage --unstable --filter '' @ [CHR 0x22] @ ''my test'' @ [CHR 0x22] @
                '' /a/b.ts'')"
    using a assms(6) by (simp add: test_trace js_join_def)
  have c: "config ''path'' = None \<longrightarrow> js_String (bin config) = ''deno''"
    by (simp add: bin_def config_get_default_def lookUp_def)
  have d: "config ''path'' = Some (JStr p) \<longrightarrow> js_String (bin config) = p"
    by (simp add: bin_def config_get_default_def lookUp_def)
  from a b c d show ?thesis by blast
qed

theorem args_example_witness:
  "args (\<lambda>v. Inr (drop 7 v)) (\<lambda>p. p)
     [''codeLens.testArgs'' \<mapsto> JArr [JStr ''--coverage''], ''unstable'' \<mapsto> JBool True]
     ''file:///a/b.ts'' ''my test''
   = Inr [JStr ''test'', JStr ''--coverage'', JStr ''--unstable'', JStr ''--filter'',
          JStr ([CHR 0x22] @ ''my test'' @ [CHR 0x22]), JStr ''/a/b.ts'']
   \<and> last (trace (snd (test ''deno'' (\<lambda>v. Inr (drop 7 v)) (\<lambda>p. p) True
       ''file:///a/b.ts'' ''my test''
       (loaded ((\<lambda>ns. Map.empty)
          (''deno'' := [''codeLens.testArgs'' \<mapsto> JArr [JStr ''--coverage''],
                        ''unstable'' \<mapsto> JBool True])) :: string state))))
     = TerminalSendText 0
        (''deno test --coverage --unstable --filter '' @ [CHR 0x22] @ ''my test'' @ [CHR 0x22] @
         '' /a/b.ts'')"
  using args_example
    [where config = "[''codeLens.testArgs'' \<mapsto> JArr [JStr ''--coverage''],
                      ''unstable'' \<mapsto> JBool True]"
       and parse = "\<lambda>v. Inr (drop 7 v)" and u = "''/a/b.ts''" and fsPath = "\<lambda>p. p"
       and ns = "''deno''" and p = "''deno''"
       and s = "loaded ((\<lambda>ns. Map.empty)
          (''deno'' := [''codeLens.testArgs'' \<mapsto> JArr [JStr ''--coverage''],
                        ''unstable'' \<mapsto> JBool True])) :: string state"]
  by (simp add: loaded_def bin_def config_get_default_def lookUp_def)

subsection \<open>Failure before the terminal is touched\<close>

text \<open>
  Claim C2. The executable, the test arguments, the filter flag, the quoted name and
  the filesystem path are computed before the stored terminal is looked at. When that
  computation fails, the invocation returns the error and the state is the one it
  started in: the stored terminal is the same and nothing was disposed, created or
  sent. The computation fails exactly when spreading the configured test arguments
  fails, or, that having succeeded, when parsing the uri fails. An invocation disposes
  a terminal only when the whole argument list was built.
\<close>

theorem test_failure_keeps_terminal:
  "(args parse fsPath (workspace_config s ns) uri name = Inl e
      \<longrightarrow> test ns parse fsPath resolves uri name s = (Inl e, s))
   \<and> (args parse fsPath (workspace_config s ns) uri name = Inl e
      \<longleftrightarrow> testArgs (workspace_config s ns) = Inl e
          \<or> (\<exists>ta. testArgs (workspace_config s ns) = Inr ta) \<and> parse uri = Inl e)
   \<and> (testArgs (workspace_config s ns) = Inl e
      \<longleftrightarrow> js_spread (config_get_default (workspace_config s ns) ''codeLens.testArgs'' (JArr []))
            = Inl e)
   \<and> (TerminalDispose t
        \<in> set (drop (length (trace s)) (trace (snd (test ns parse fsPath resolves uri name s))))
      \<longrightarrow> (\<exists>as. args parse fsPath (workspace_config s ns) uri name = Inr as))"
proof -
  have a: "args parse fsPath (workspace_config s ns) uri name = Inl e
      \<longrightarrow> test ns parse fsPath resolves uri name s = (Inl e, s)"
    by (simp add: test_fails)
  have b: "args parse fsPath (workspace_config s ns) uri name = Inl e
      \<longleftrightarrow> testArgs (workspace_config s ns) = Inl e
          \<or> (\<exists>ta. testArgs (workspace_config s ns) = Inr ta) \<and> parse uri = Inl e"
    by (auto simp: args_def split: sum.splits)
  have c: "testArgs (workspace_config s ns) = Inl e
      \<longleftrightarrow> js_spread (config_get_default (workspace_config s ns) ''codeLens.testArgs'' (JArr []))
            = Inl e"
    by (auto simp: testArgs_def Let_def split: sum.splits)
  have d: "TerminalDispose t
        \<in> set (drop (length (trace s)) (trace (snd (test ns parse fsPath resolves uri name s))))
      \<longrightarrow> (\<exists>as. args parse fsPath (workspace_config s ns) uri name = Inr as)"
  proof (cases "args parse fsPath (workspace_config s ns) uri name")
    case (Inl e')
    then show ?thesis by (simp add: test_fails)
  next
    case (Inr as)
    then show ?thesis by simp
  qed
  from a b c d show ?thesis by blast
qed

theorem test_failure_keeps_terminal_witness:
  "args (\<lambda>v. Inr (drop 7 v)) (\<lambda>p. p)
     (workspace_config
        ((loaded ((\<lambda>ns. Map.empty)(''deno'' := [''codeLens.testArgs'' \<mapsto> JNum 3])) :: string state)
           \<lparr>terminal := Some 0, terminals_created := 1,
            trace := [CreateTerminal ''earlier'' ''/w'' JUndefined (Some 0)]\<rparr>)
        ''deno'')
     ''file:///a/b.ts'' ''my test'' = Inl TypeError
   \<and> test ''deno'' (\<lambda>v. Inr (drop 7 v)) (\<lambda>p. p) True ''file:///a/b.ts'' ''my test''
       ((loaded ((\<lambda>ns. Map.empty)(''deno'' := [''codeLens.testArgs'' \<mapsto> JNum 3])) :: string state)
          \<lparr>terminal := Some 0, terminals_created := 1,
           trace := [CreateTerminal ''earlier'' ''/w'' JUndefined (Some 0)]\<rparr>)
     = (Inl TypeError,
        (loaded ((\<lambda>ns. Map.empty)(''deno'' := [''codeLens.testArgs'' \<mapsto> JNum 3])))
          \<lparr>terminal := Some 0, terminals_created := 1,
           trace := [CreateTerminal ''earlier'' ''/w'' JUndefined (Some 0)]\<rparr>)"
  using test_failure_keeps_terminal
    [where parse = "\<lambda>v. Inr (drop 7 v)" and fsPath = "\<lambda>p. p" and ns = "''deno''"
       and uri = "''file:///a/b.ts''" and name = "''my test''" and e = TypeError
       and resolves = True and t = 0
       and s = "(loaded ((\<lambda>ns. Map.empty)(''deno'' := [''codeLens.testArgs'' \<mapsto> JNum 3]))
                  :: string state)
          \<lparr>terminal := Some 0, terminals_created := 1,
           trace := [CreateTerminal ''earlier'' ''/w'' JUndefined (Some 0)]\<rparr>"]
  by (simp add: loaded_def args_def testArgs_def config_get_default_def lookUp_def)

subsection \<open>One live terminal\<close>











end
